theory Spec2Isabelle
  imports Main
begin

section \<open>The server error handler of \<^verbatim>\<open>packages/modules/server/src/server/error.ts\<close>\<close>

text \<open>
  The handler registered with \<^verbatim>\<open>app.setErrorHandler\<close> is embedded as a function from
  its injected collaborators, the caught error and the request to a pair: how the
  invocation ends (a returned value or a thrown one) and the sequence of calls the handler
  made on its collaborators (logger, reply, hooks, asset-manifest fetcher, renderer), in
  the order of the source.
\<close>

subsection \<open>JavaScript values\<close>

text \<open>
  What a hook may return and what a reply header may hold. Numbers are the integers
  (statuses and byte lengths) and \<^verbatim>\<open>NaN\<close>; \<open>JObj\<close> is any object, named by a label.
  Strings are byte strings: the UTF-8 encoding of the JavaScript string.
\<close>

datatype jsval =
    Undefined
  | Null
  | JBool bool
  | JNum int
  | JNaN
  | JStr string
  | JObj string

text \<open>\<^verbatim>\<open>if (result)\<close>: the falsy values are undefined, null, false, 0, NaN and the empty string.\<close>

fun truthy :: "jsval \<Rightarrow> bool" where
  "truthy Undefined = False"
| "truthy Null = False"
| "truthy (JBool b) = b"
| "truthy (JNum n) = (n \<noteq> 0)"
| "truthy JNaN = False"
| "truthy (JStr s) = (s \<noteq> [])"
| "truthy (JObj l) = True"

text \<open>\<^verbatim>\<open>isNil\<close> of \<^verbatim>\<open>@tinkoff/utils/is/nil\<close>: undefined or null.\<close>

fun isNil :: "jsval \<Rightarrow> bool" where
  "isNil Undefined = True"
| "isNil Null = True"
| "isNil v = False"

text \<open>\<^verbatim>\<open>x || d\<close> on an optional number: the default replaces undefined and 0.\<close>

definition jsOr :: "int option \<Rightarrow> int \<Rightarrow> int" where
  "jsOr x d = (case x of None \<Rightarrow> d | Some n \<Rightarrow> if n = 0 then d else n)"

text \<open>\<^verbatim>\<open>x >= k\<close> on an optional number: undefined compares false.\<close>

definition jsGe :: "int option \<Rightarrow> int \<Rightarrow> bool" where
  "jsGe x k = (case x of None \<Rightarrow> False | Some n \<Rightarrow> k \<le> n)"

subsection \<open>The caught error, the request and the thrown values\<close>

text \<open>
  Modelled from the spec: the predicates \<^verbatim>\<open>isRedirectFoundError\<close>, \<^verbatim>\<open>isNotFoundError\<close> and
  \<^verbatim>\<open>isHttpError\<close> of \<^verbatim>\<open>@tinkoff/errors\<close> are imported by the handler and not part of the
  sources at hand. The spec gives a caught error one of four variant tags (redirect,
  not-found, domain HTTP error, generic server error), and the predicates test the tag.
\<close>

datatype error_tag = RedirectFoundError | NotFoundError | HttpError | GenericError

record caught_error =
  tag :: error_tag
  message :: string
  stack :: "string option"
  httpStatus :: "int option"
  statusCode :: "int option"
  code :: "string option"
  nextUrl :: "string option"

definition isRedirectFoundError :: "caught_error \<Rightarrow> bool" where
  "isRedirectFoundError e = (tag e = RedirectFoundError)"

definition isNotFoundError :: "caught_error \<Rightarrow> bool" where
  "isNotFoundError e = (tag e = NotFoundError)"

definition isHttpError :: "caught_error \<Rightarrow> bool" where
  "isHttpError e = (tag e = HttpError)"

text \<open>
  A thrown value: the caught error object itself, the \<^verbatim>\<open>TypeError\<close> the runtime raises on
  a property read of undefined, or whatever a collaborator throws.
\<close>

datatype exn =
    ErrorObject caught_error
  | TypeError string
  | Exception string

record request =
  ip :: string
  x_request_id :: "string option"
  url :: string

record request_info =
  ri_ip :: string
  ri_requestId :: "string option"
  ri_url :: string

subsection \<open>The calls the handler makes\<close>

datatype log_level = Info | Warn | Error

record log_record =
  log_event :: string
  log_message :: string
  log_error :: "exn option"
  log_requestInfo :: "request_info option"

datatype effect =
    Log log_level log_record
  | Invoke string
  | ReplyHeader string jsval
  | ReplyRedirect int "string option"
  | ReplyStatus int
  | FetchWebpackStats
  | RenderToString

text \<open>
  A hook is called with the error, the request and the reply. Its result may depend on
  everything that happened before in the invocation, so it reads the calls made so far;
  it returns a value or throws. Its name identifies it among the calls. The hook is handed
  the live error object and may assign to its fields; such assignments are not part of
  this record, so what is said of the stages after a hook chain is said of the error as it
  stands when they run.
\<close>

record hook =
  hook_name :: string
  hook_run :: "caught_error \<Rightarrow> request \<Rightarrow> effect list \<Rightarrow> exn + jsval"

subsection \<open>\<^verbatim>\<open>runHandlers\<close> (lines 33-45)\<close>

text \<open>
  The \<^verbatim>\<open>for ... of\<close> loop: each hook is awaited in turn; a throw leaves the loop and the
  function; a truthy result is returned at once; when the list is exhausted the function
  falls off its end and returns undefined.
\<close>

fun runHandlersLoop ::
  "hook list \<Rightarrow> caught_error \<Rightarrow> request \<Rightarrow> effect list \<Rightarrow> (exn + jsval) \<times> effect list" where
  "runHandlersLoop [] e rq t = (Inr Undefined, t)"
| "runHandlersLoop (h # hs) e rq t =
     (case hook_run h e rq t of
        Inl x \<Rightarrow> (Inl x, t @ [Invoke (hook_name h)])
      | Inr result \<Rightarrow>
          if truthy result then (Inr result, t @ [Invoke (hook_name h)])
          else runHandlersLoop hs e rq (t @ [Invoke (hook_name h)]))"

text \<open>The calls of a run that invokes exactly the hooks \<open>hs\<close>, in their order.\<close>

primrec invocations :: "hook list \<Rightarrow> effect list" where
  "invocations [] = []"
| "invocations (h # hs) = Invoke (hook_name h) # invocations hs"

text \<open>\<^verbatim>\<open>if (handlers)\<close>: an absent list is skipped, an empty array is looped over.\<close>

definition runHandlers ::
  "hook list option \<Rightarrow> caught_error \<Rightarrow> request \<Rightarrow> effect list \<Rightarrow> (exn + jsval) \<times> effect list" where
  "runHandlers handlers e rq t =
     (case handlers of
        None \<Rightarrow> (Inr Undefined, t)
      | Some hs \<Rightarrow> runHandlersLoop hs e rq t)"

subsection \<open>Classification (lines 84-144)\<close>

definition nl :: string where
  "nl = [CHR 0x0A]"

definition dq :: string where
  "dq = [CHR 0x22]"

text \<open>
  \<^verbatim>\<open>String.prototype.toLowerCase\<close> on the ASCII letters; bytes of other characters are
  left as they are (the error codes of the HTTP layer are ASCII).
\<close>

definition lowerChar :: "char \<Rightarrow> char" where
  "lowerChar c =
     (let n = (of_char c :: nat) in if 65 \<le> n \<and> n \<le> 90 then char_of (n + 32) else c)"

definition toLowerCase :: "string \<Rightarrow> string" where
  "toLowerCase s = map lowerChar s"

definition redirectMessage :: "caught_error \<Rightarrow> string" where
  "redirectMessage e =
     ''RedirectFoundError, redirect to '' @ (case nextUrl e of None \<Rightarrow> ''undefined'' | Some u \<Rightarrow> u)
     @ '', action execution will be aborted.'' @ nl
     @ ''More information about redirects - https://tramvai.dev/docs/features/routing/redirects''"

definition notFoundMessage :: string where
  "notFoundMessage =
     ''NotFoundError, action execution will be aborted.'' @ nl
     @ ''Not Found page is common use-case with this error - https://tramvai.dev/docs/features/routing/wildcard-routes/#not-found-page''"

definition httpError5xxMessage :: string where
  "httpError5xxMessage =
     ''This is expected server error, here is most common cases:'' @ nl
     @ ''- Router Guard blocked request - https://tramvai.dev/docs/features/routing/hooks-and-guards#guards'' @ nl
     @ ''- Forced Page Error Boundary render with 5xx code in Guard or Action - https://tramvai.dev/docs/features/error-boundaries#force-render-page-error-boundary-in-action''"

definition httpErrorMessage :: string where
  "httpErrorMessage =
     ''This is expected server error, here is most common cases:'' @ nl
     @ ''  - Route is not found - https://tramvai.dev/docs/features/routing/flow#server-navigation'' @ nl
     @ ''  - Forced Page Error Boundary render with 4xx code in Guard or Action - https://tramvai.dev/docs/features/error-boundaries#force-render-page-error-boundary-in-action'' @ nl
     @ ''  - Request Limiter blocked request with 429 code - https://tramvai.dev/docs/references/modules/request-limiter/''"

definition fastifyMessage :: "string \<Rightarrow> string \<Rightarrow> string" where
  "fastifyMessage family c =
     ''This is Fastify '' @ family @ '' error, you can check '' @ c
     @ '' code in https://www.fastify.io/docs/latest/Reference/Errors/#'' @ toLowerCase c @ '' page''"

definition unexpectedMessage :: string where
  "unexpectedMessage =
     ''Unexpected server error. Error cause will be in '' @ dq @ ''error'' @ dq @ '' parameter.'' @ nl
     @ ''  Most likely an error has occurred in the rendering of the current React page component'' @ nl
     @ ''  You can try to find relative logs by using '' @ dq @ ''x-request-id'' @ dq @ '' header''"

text \<open>Lines 139-144: the sentence appended to every message, and the quote after it.\<close>

definition boundarySuffix :: "bool \<Rightarrow> string" where
  "boundarySuffix present =
     nl @ (if present then ''Root Error Boundary will be rendered for the client''
           else ''You can add Error Boundary for better UX - https://tramvai.dev/docs/features/error-boundaries'')
     @ [CHR 0x27]"

record classification =
  c_httpStatus :: int
  logLevel :: log_level
  logEvent :: string
  logMessage :: string

text \<open>
  \<^verbatim>\<open>error.code.toLowerCase()\<close>: a property read of undefined throws, and the assignment
  to \<^verbatim>\<open>logMessage\<close> it stands in is abandoned.
\<close>

definition codeMessage :: "string \<Rightarrow> caught_error \<Rightarrow> exn + string" where
  "codeMessage family e =
     (case code e of
        None \<Rightarrow> Inl (TypeError ''Cannot read properties of undefined (reading 'toLowerCase')'')
      | Some c \<Rightarrow> Inr (fastifyMessage family c))"

text \<open>
  The \<^verbatim>\<open>if / else if / else\<close> of lines 89-137. The thresholds are tested on the error's
  own field (\<^verbatim>\<open>error.httpStatus\<close>, \<^verbatim>\<open>error.statusCode\<close>), the status is the field or the default.
\<close>

definition classify :: "caught_error \<Rightarrow> exn + classification" where
  "classify e =
     (if isNotFoundError e then
        Inr \<lparr>c_httpStatus = jsOr (httpStatus e) 404, logLevel = Info,
             logEvent = ''not-found-error'', logMessage = notFoundMessage\<rparr>
      else if isHttpError e then
        (if jsGe (httpStatus e) 500 then
           Inr \<lparr>c_httpStatus = jsOr (httpStatus e) 500, logLevel = Error,
                logEvent = ''send-server-error'', logMessage = httpError5xxMessage\<rparr>
         else
           Inr \<lparr>c_httpStatus = jsOr (httpStatus e) 500, logLevel = Info,
                logEvent = ''http-error'', logMessage = httpErrorMessage\<rparr>)
      else
        (if jsGe (statusCode e) 500 then
           (case codeMessage ''5xx'' e of
              Inl x \<Rightarrow> Inl x
            | Inr m \<Rightarrow> Inr \<lparr>c_httpStatus = jsOr (statusCode e) 500, logLevel = Error,
                            logEvent = ''send-server-error'', logMessage = m\<rparr>)
         else if jsGe (statusCode e) 400 then
           (case codeMessage ''4xx'' e of
              Inl x \<Rightarrow> Inl x
            | Inr m \<Rightarrow> Inr \<lparr>c_httpStatus = jsOr (statusCode e) 500, logLevel = Info,
                            logEvent = ''fastify-error-4xx'', logMessage = m\<rparr>)
         else
           Inr \<lparr>c_httpStatus = jsOr (statusCode e) 500, logLevel = Error,
                logEvent = ''send-server-error'', logMessage = unexpectedMessage\<rparr>))"

subsection \<open>String operations of the runtime\<close>

text \<open>
  \<^verbatim>\<open>String.prototype.replace\<close> with a string pattern: only the first occurrence is
  replaced, and a string without the pattern is returned as it is. \<open>splitAtFirst\<close> finds
  the first occurrence and returns what is before and after it.
\<close>

fun splitAtFirst :: "string \<Rightarrow> string \<Rightarrow> (string \<times> string) option" where
  "splitAtFirst pat [] = (if pat = [] then Some ([], []) else None)"
| "splitAtFirst pat (c # cs) =
     (if take (length pat) (c # cs) = pat then Some ([], drop (length pat) (c # cs))
      else (case splitAtFirst pat cs of
              None \<Rightarrow> None
            | Some (pre, post) \<Rightarrow> Some (c # pre, post)))"

text \<open>
  The replacement string is not inserted verbatim: \<^verbatim>\<open>$$\<close> inserts a dollar sign, \<^verbatim>\<open>$&\<close> the
  matched text, \<^verbatim>\<open>$`\<close> the text before the match and \<^verbatim>\<open>$'\<close> the text after it. With a
  string pattern there are no capture groups, so every other dollar sign stands for itself.
\<close>

fun getSubstitution :: "string \<Rightarrow> string \<Rightarrow> string \<Rightarrow> string \<Rightarrow> string" where
  "getSubstitution matched pre post [] = []"
| "getSubstitution matched pre post [c] = [c]"
| "getSubstitution matched pre post (c # d # rest) =
     (if c = CHR ''$'' \<and> d = CHR ''$'' then CHR ''$'' # getSubstitution matched pre post rest
      else if c = CHR ''$'' \<and> d = CHR ''&'' then matched @ getSubstitution matched pre post rest
      else if c = CHR ''$'' \<and> d = CHR 0x60 then pre @ getSubstitution matched pre post rest
      else if c = CHR ''$'' \<and> d = CHR 0x27 then post @ getSubstitution matched pre post rest
      else c # getSubstitution matched pre post (d # rest))"

text \<open>Whether a text holds one of the four substitution patterns.\<close>

fun hasDollarPattern :: "string \<Rightarrow> bool" where
  "hasDollarPattern [] = False"
| "hasDollarPattern [c] = False"
| "hasDollarPattern (c # d # rest) =
     ((c = CHR ''$'' \<and> (d = CHR ''$'' \<or> d = CHR ''&'' \<or> d = CHR 0x60 \<or> d = CHR 0x27))
      \<or> hasDollarPattern (d # rest))"

definition jsReplace :: "string \<Rightarrow> string \<Rightarrow> string \<Rightarrow> string" where
  "jsReplace s pat replacement =
     (case splitAtFirst pat s of
        None \<Rightarrow> s
      | Some (pre, post) \<Rightarrow> pre @ getSubstitution pat pre post replacement @ post)"

text \<open>\<^verbatim>\<open>String.prototype.includes\<close>.\<close>

definition includesStr :: "string \<Rightarrow> string \<Rightarrow> bool" where
  "includesStr s pat = (splitAtFirst pat s \<noteq> None)"

text \<open>\<^verbatim>\<open>Array.prototype.join\<close>.\<close>

fun join :: "string \<Rightarrow> string list \<Rightarrow> string" where
  "join sep [] = []"
| "join sep [x] = x"
| "join sep (x # y # ys) = x @ sep @ join sep (y # ys)"

text \<open>
  \<^verbatim>\<open>Buffer.byteLength(body, 'utf8')\<close>: strings are held as their UTF-8 bytes, so this is
  the length.
\<close>

definition byteLength :: "string \<Rightarrow> int" where
  "byteLength s = int (length s)"

subsection \<open>The injected collaborators\<close>

record serialized_error =
  ser_status :: int
  ser_message :: string
  ser_stack :: "string option"

text \<open>The three things the handler passes to \<^verbatim>\<open>safeStringify\<close>.\<close>

datatype 'u stringify_arg =
    OfUrl 'u
  | OfString string
  | OfError serialized_error

record extractor =
  getStyleTags :: "exn + string"
  getScriptTags :: "exn + string"

text \<open>
  None of these is defined in the file: they are imported (\<^verbatim>\<open>parse\<close>, \<^verbatim>\<open>safeStringify\<close>,
  \<^verbatim>\<open>ChunkExtractor\<close>, \<^verbatim>\<open>renderToString\<close>), injected (\<^verbatim>\<open>beforeError\<close>, \<^verbatim>\<open>afterError\<close>,
  \<^verbatim>\<open>fetchWebpackStats\<close>) or resolved at run time (\<^verbatim>\<open>RootErrorBoundary\<close>, null when the
  \<^verbatim>\<open>require\<close> fails). Each may throw. \<open>'s\<close> is the asset manifest, \<open>'u\<close> the parsed URL.
  A component is given by what \<^verbatim>\<open>renderToString(createElement(component, props))\<close> yields.
\<close>

record ('s, 'u) deps =
  beforeError :: "hook list option"
  afterError :: "hook list option"
  RootErrorBoundary :: "(serialized_error \<Rightarrow> 'u \<Rightarrow> exn + string) option"
  fetchWebpackStats :: "exn + 's"
  chunkExtractor :: "'s \<Rightarrow> exn + extractor"
  parse :: "string \<Rightarrow> exn + 'u"
  safeStringify :: "'u stringify_arg \<Rightarrow> exn + string"

subsection \<open>Rendering the root error boundary (lines 163-199)\<close>

text \<open>Sequencing inside the \<^verbatim>\<open>try\<close> block: a step that throws ends the block.\<close>

definition attempt ::
  "(exn + 'a) \<times> effect list \<Rightarrow> ('a \<Rightarrow> effect list \<Rightarrow> (exn + 'b) \<times> effect list)
   \<Rightarrow> (exn + 'b) \<times> effect list" where
  "attempt r k = (case r of (Inl x, t) \<Rightarrow> (Inl x, t) | (Inr v, t) \<Rightarrow> k v t)"

definition headScript :: "string \<Rightarrow> string \<Rightarrow> string \<Rightarrow> string" where
  "headScript su sm se =
     ''<script>'' @ ''window.serverUrl = '' @ su @ '';''
     @ ''window.serverError = new Error('' @ sm @ '');''
     @ ''Object.assign(window.serverError, '' @ se @ '');''
     @ ''</script>''"

text \<open>\<^verbatim>\<open>[...].filter(Boolean).join('\n')\<close>: empty strings are dropped.\<close>

definition headReplacement :: "string \<Rightarrow> string \<Rightarrow> string \<Rightarrow> string" where
  "headReplacement script styleTags scriptTags =
     join nl (filter (\<lambda>s. s \<noteq> []) [script, styleTags, scriptTags, ''</head>''])"

definition renderedEvent :: log_record where
  "renderedEvent =
     \<lparr>log_event = ''render-root-error-boundary'',
      log_message = ''Render Root Error Boundary for the client'',
      log_error = None, log_requestInfo = None\<rparr>"

text \<open>
  The order is that of evaluation: manifest, extractor, URL, the rendering (the receiver
  of \<^verbatim>\<open>.replace\<close>), then the array elements of its argument from left to right.
\<close>

definition renderRootErrorBoundary ::
  "('s, 'u) deps \<Rightarrow> (serialized_error \<Rightarrow> 'u \<Rightarrow> exn + string) \<Rightarrow> caught_error \<Rightarrow> request_info
   \<Rightarrow> int \<Rightarrow> effect list \<Rightarrow> (exn + string) \<times> effect list" where
  "renderRootErrorBoundary d component error requestInfo status t0 =
     attempt (fetchWebpackStats d, t0 @ [FetchWebpackStats]) (\<lambda>stats t.
     attempt (chunkExtractor d stats, t) (\<lambda>extractor t.
     attempt (parse d (ri_url requestInfo), t) (\<lambda>url t.
     let serializedError =
           \<lparr>ser_status = status, ser_message = message error, ser_stack = stack error\<rparr> in
     attempt (component serializedError url, t @ [RenderToString]) (\<lambda>markup t.
     attempt (safeStringify d (OfUrl url), t) (\<lambda>su t.
     attempt (safeStringify d (OfString (ser_message serializedError)), t) (\<lambda>sm t.
     attempt (safeStringify d (OfError serializedError), t) (\<lambda>se t.
     attempt (getStyleTags extractor, t) (\<lambda>styleTags t.
     attempt (getScriptTags extractor, t) (\<lambda>scriptTags t.
     let body = jsReplace markup ''</head>''
                  (headReplacement (headScript su sm se) styleTags scriptTags) in
     (Inr body,
      t @ [Log Info renderedEvent,
           ReplyHeader ''Content-Type'' (JStr ''text/html; charset=utf-8''),
           ReplyHeader ''Content-Length'' (JNum (byteLength body)),
           ReplyHeader ''Cache-Control'' (JStr ''no-store, no-cache, must-revalidate'')]))))))))))"

subsection \<open>The handler (lines 32-210)\<close>

definition mkRequestInfo :: "request \<Rightarrow> request_info" where
  "mkRequestInfo rq = \<lparr>ri_ip = ip rq, ri_requestId = x_request_id rq, ri_url = url rq\<rparr>"

text \<open>Lines 70-82: the redirect branch ends with a bare \<^verbatim>\<open>return\<close>.\<close>

definition redirectRecord :: "caught_error \<Rightarrow> request_info \<Rightarrow> log_record" where
  "redirectRecord error requestInfo =
     \<lparr>log_event = ''redirect-found-error'', log_message = redirectMessage error,
      log_error = Some (ErrorObject error), log_requestInfo = Some requestInfo\<rparr>"

definition redirectFound ::
  "caught_error \<Rightarrow> request_info \<Rightarrow> effect list \<Rightarrow> (exn + jsval) \<times> effect list" where
  "redirectFound error requestInfo t =
     (Inr Undefined,
      t @ [Log Info (redirectRecord error requestInfo),
           ReplyHeader ''cache-control'' (JStr ''no-store, no-cache, must-revalidate''),
           ReplyRedirect (jsOr (httpStatus error) 307) (nextUrl error)])"

definition failedEvent :: "exn \<Rightarrow> log_record" where
  "failedEvent x =
     \<lparr>log_event = ''failed-root-error-boundary'',
      log_message = ''Root Error Boundary rendering failed'',
      log_error = Some x, log_requestInfo = None\<rparr>"

text \<open>
  Lines 159-209: the status is set, the boundary (when there is one) is rendered inside
  \<^verbatim>\<open>try\<close>; the \<^verbatim>\<open>catch\<close> logs and falls through to \<^verbatim>\<open>throw error\<close>.
\<close>

definition respond ::
  "('s, 'u) deps \<Rightarrow> caught_error \<Rightarrow> request_info \<Rightarrow> int \<Rightarrow> effect list
   \<Rightarrow> (exn + jsval) \<times> effect list" where
  "respond d error requestInfo status t0 =
     (let t = t0 @ [ReplyStatus status] in
      case RootErrorBoundary d of
        None \<Rightarrow> (Inl (ErrorObject error), t)
      | Some component \<Rightarrow>
          (case renderRootErrorBoundary d component error requestInfo status t of
             (Inr body, t') \<Rightarrow> (Inr (JStr body), t')
           | (Inl x, t') \<Rightarrow> (Inl (ErrorObject error), t' @ [Log Warn (failedEvent x)])))"

text \<open>Lines 139-157: the log record, then the after-hooks.\<close>

definition classificationRecord ::
  "('s, 'u) deps \<Rightarrow> caught_error \<Rightarrow> request_info \<Rightarrow> classification \<Rightarrow> log_record" where
  "classificationRecord d error requestInfo c =
     \<lparr>log_event = logEvent c,
      log_message = logMessage c @ boundarySuffix (\<not> Option.is_none (RootErrorBoundary d)),
      log_error = Some (ErrorObject error),
      log_requestInfo = Some requestInfo\<rparr>"

definition logAndRunAfter ::
  "('s, 'u) deps \<Rightarrow> caught_error \<Rightarrow> request \<Rightarrow> request_info \<Rightarrow> classification \<Rightarrow> effect list
   \<Rightarrow> (exn + jsval) \<times> effect list" where
  "logAndRunAfter d error rq requestInfo c t0 =
     (let t = t0 @ [Log (logLevel c) (classificationRecord d error requestInfo c)] in
      case runHandlers (afterError d) error rq t of
        (Inl x, t') \<Rightarrow> (Inl x, t')
      | (Inr afterErrorResult, t') \<Rightarrow>
          if \<not> isNil afterErrorResult then (Inr afterErrorResult, t')
          else respond d error requestInfo (c_httpStatus c) t')"

text \<open>
  Lines 53-209: the default handling, entered once the before-hooks are over without a
  result; \<open>error\<close> is the caught error as it stands then, \<open>t\<close> the calls made so far.
\<close>

definition defaultHandler ::
  "('s, 'u) deps \<Rightarrow> caught_error \<Rightarrow> request \<Rightarrow> effect list \<Rightarrow> (exn + jsval) \<times> effect list" where
  "defaultHandler d error rq t =
     (let requestInfo = mkRequestInfo rq in
      if isRedirectFoundError error then redirectFound error requestInfo t
      else
        (case classify error of
           Inl x \<Rightarrow> (Inl x, t)
         | Inr c \<Rightarrow> logAndRunAfter d error rq requestInfo c t))"

definition errorHandler ::
  "('s, 'u) deps \<Rightarrow> caught_error \<Rightarrow> request \<Rightarrow> (exn + jsval) \<times> effect list" where
  "errorHandler d error rq =
     (case runHandlers (beforeError d) error rq [] of
        (Inl x, t) \<Rightarrow> (Inl x, t)
      | (Inr beforeErrorResult, t) \<Rightarrow>
          if \<not> isNil beforeErrorResult then (Inr beforeErrorResult, t)
          else defaultHandler d error rq t)"

subsection \<open>Reading a run\<close>

text \<open>The event names logged, the redirects issued, the statuses and header values set, in order.\<close>

primrec logEvents :: "effect list \<Rightarrow> string list" where
  "logEvents [] = []"
| "logEvents (ev # tr) = (case ev of Log l r \<Rightarrow> [log_event r] | _ \<Rightarrow> []) @ logEvents tr"

primrec redirects :: "effect list \<Rightarrow> (int \<times> string option) list" where
  "redirects [] = []"
| "redirects (ev # tr) = (case ev of ReplyRedirect s u \<Rightarrow> [(s, u)] | _ \<Rightarrow> []) @ redirects tr"

primrec statuses :: "effect list \<Rightarrow> int list" where
  "statuses [] = []"
| "statuses (ev # tr) = (case ev of ReplyStatus s \<Rightarrow> [s] | _ \<Rightarrow> []) @ statuses tr"

primrec headerValues :: "string \<Rightarrow> effect list \<Rightarrow> jsval list" where
  "headerValues name [] = []"
| "headerValues name (ev # tr) =
     (case ev of ReplyHeader n v \<Rightarrow> (if n = name then [v] else []) | _ \<Rightarrow> [])
     @ headerValues name tr"

text \<open>
  The two ways an invocation can end. A response is a returned value that is not nil (a
  body or a hook result) or a redirect issued on the reply; otherwise an exception leaves
  the handler.
\<close>

definition returnsResponse :: "(exn + jsval) \<times> effect list \<Rightarrow> bool" where
  "returnsResponse r =
     (case r of (Inr v, tr) \<Rightarrow> \<not> isNil v \<or> redirects tr \<noteq> [] | (Inl x, tr) \<Rightarrow> False)"

definition throwsException :: "(exn + jsval) \<times> effect list \<Rightarrow> bool" where
  "throwsException r = (case r of (Inr v, tr) \<Rightarrow> False | (Inl x, tr) \<Rightarrow> True)"

text \<open>The event names that occur in the handler's log calls.\<close>

definition handlerVocabulary :: "string list" where
  "handlerVocabulary =
     [''redirect-found-error'', ''not-found-error'', ''http-error'', ''send-server-error'',
      ''fastify-error-4xx'', ''render-root-error-boundary'', ''failed-root-error-boundary'']"

text \<open>The event names as the specification lists them.\<close>

definition specVocabulary :: "string list" where
  "specVocabulary =
     [''redirect-found-error'', ''not-found-error'', ''http-error'', ''send-server-error'',
      ''generic-error-4xx'', ''render-fallback'', ''failed-fallback-render'']"

subsection \<open>Concrete inputs\<close>

definition exRequest :: request where
  "exRequest = \<lparr>ip = ''10.0.0.1'', x_request_id = Some ''r-1'', url = ''/page''\<rparr>"

definition exError :: "error_tag \<Rightarrow> int option \<Rightarrow> int option \<Rightarrow> string option \<Rightarrow> caught_error" where
  "exError tg hs sc cd =
     \<lparr>tag = tg, message = ''boom'', stack = None, httpStatus = hs, statusCode = sc,
      code = cd, nextUrl = Some ''/login''\<rparr>"

text \<open>A hook that returns the same value whatever it is called with.\<close>

definition hookReturning :: "string \<Rightarrow> jsval \<Rightarrow> hook" where
  "hookReturning n v = \<lparr>hook_name = n, hook_run = (\<lambda>e rq t. Inr v)\<rparr>"

text \<open>A page with a head, and one without.\<close>

definition exPage :: "serialized_error \<Rightarrow> string \<Rightarrow> exn + string" where
  "exPage se u = Inr ''<html><head></head><body>Error</body></html>''"

definition exBarePage :: "serialized_error \<Rightarrow> string \<Rightarrow> exn + string" where
  "exBarePage se u = Inr ''<body>Error</body>''"

definition exStringify :: "string stringify_arg \<Rightarrow> exn + string" where
  "exStringify a =
     (case a of
        OfUrl u \<Rightarrow> Inr (dq @ u @ dq)
      | OfString s \<Rightarrow> Inr (dq @ s @ dq)
      | OfError se \<Rightarrow> Inr (''{'' @ dq @ ''message'' @ dq @ '':'' @ dq @ ser_message se @ dq @ ''}''))"

text \<open>No hooks and no error boundary; the collaborators of the rendering all succeed.\<close>

definition exDeps :: "(string, string) deps" where
  "exDeps =
     \<lparr>beforeError = None, afterError = None, RootErrorBoundary = None,
      fetchWebpackStats = Inr ''stats'',
      chunkExtractor = (\<lambda>s. Inr \<lparr>getStyleTags = Inr ''<link>'', getScriptTags = Inr []\<rparr>),
      parse = (\<lambda>u. Inr u),
      safeStringify = exStringify\<rparr>"

section \<open>Properties\<close>

subsection \<open>The hook chain\<close>

lemma invocations_append [simp]: "invocations (xs @ ys) = invocations xs @ invocations ys"
  by (induction xs) auto

lemma invocations_Invoke: "invocations hs = map Invoke (map hook_name hs)"
  by (induction hs) auto

lemma runHandlersLoop_trace:
  "runHandlersLoop hs e rq t = (r, t') \<Longrightarrow>
     \<exists>k\<le>length hs. t' = t @ invocations (take k hs)"
proof (induction hs arbitrary: t)
  case Nil
  then show ?case by simp
next
  case (Cons h hs)
  show ?case
  proof (cases "hook_run h e rq t")
    case (Inl x)
    with Cons.prems have "t' = t @ invocations (take 1 (h # hs))" by simp
    then show ?thesis by (intro exI[of _ 1]) simp
  next
    case (Inr v)
    show ?thesis
    proof (cases "truthy v")
      case True
      with Inr Cons.prems have "t' = t @ invocations (take 1 (h # hs))" by simp
      then show ?thesis by (intro exI[of _ 1]) simp
    next
      case False
      with Inr Cons.prems have "runHandlersLoop hs e rq (t @ [Invoke (hook_name h)]) = (r, t')"
        by simp
      from Cons.IH[OF this] obtain k where k: "k \<le> length hs"
        and t': "t' = (t @ [Invoke (hook_name h)]) @ invocations (take k hs)"
        by blast
      from t' have "t' = t @ invocations (take (Suc k) (h # hs))" by simp
      with k show ?thesis by (intro exI[of _ "Suc k"]) simp
    qed
  qed
qed

lemma runHandlers_trace:
  "runHandlers hs e rq t = (r, t') \<Longrightarrow> \<exists>ns. t' = t @ map Invoke ns"
proof (cases hs)
  case None
  assume "runHandlers hs e rq t = (r, t')"
  with None have "t' = t @ map Invoke []" by (simp add: runHandlers_def)
  then show ?thesis by blast
next
  case (Some l)
  assume "runHandlers hs e rq t = (r, t')"
  with Some have "runHandlersLoop l e rq t = (r, t')" by (simp add: runHandlers_def)
  from runHandlersLoop_trace[OF this] obtain k
    where "t' = t @ invocations (take k l)" by auto
  then have "t' = t @ map Invoke (map hook_name (take k l))" by (simp only: invocations_Invoke)
  then show ?thesis by blast
qed

lemma runHandlersLoop_first_truthy:
  assumes "\<forall>i<length pre. \<exists>r. hook_run (pre ! i) e rq (t @ invocations (take i pre)) = Inr r \<and> \<not> truthy r"
    and "hook_run h e rq (t @ invocations pre) = Inr v"
    and "truthy v"
  shows "runHandlersLoop (pre @ h # post) e rq t = (Inr v, t @ invocations (pre @ [h]))"
  using assms
proof (induction pre arbitrary: t)
  case Nil
  then show ?case by simp
next
  case (Cons p ps)
  from Cons.prems(1) have "\<exists>r. hook_run p e rq t = Inr r \<and> \<not> truthy r"
    by (auto dest: spec[of _ 0])
  then obtain r where r: "hook_run p e rq t = Inr r" "\<not> truthy r" by blast
  have step: "\<forall>i<length ps. \<exists>r. hook_run (ps ! i) e rq
        ((t @ [Invoke (hook_name p)]) @ invocations (take i ps)) = Inr r \<and> \<not> truthy r"
  proof (intro allI impI)
    fix i assume "i < length ps"
    then have "Suc i < length (p # ps)" by simp
    with Cons.prems(1) have "\<exists>r. hook_run ((p # ps) ! Suc i) e rq
        (t @ invocations (take (Suc i) (p # ps))) = Inr r \<and> \<not> truthy r"
      by blast
    then show "\<exists>r. hook_run (ps ! i) e rq
        ((t @ [Invoke (hook_name p)]) @ invocations (take i ps)) = Inr r \<and> \<not> truthy r"
      by simp
  qed
  from Cons.prems(2) have h: "hook_run h e rq ((t @ [Invoke (hook_name p)]) @ invocations ps) = Inr v"
    by simp
  from Cons.IH[OF step h Cons.prems(3)] r show ?case by simp
qed

lemma runHandlersLoop_none_truthy:
  assumes "\<forall>i<length hs. \<exists>r. hook_run (hs ! i) e rq (t @ invocations (take i hs)) = Inr r \<and> \<not> truthy r"
  shows "runHandlersLoop hs e rq t = (Inr Undefined, t @ invocations hs)"
  using assms
proof (induction hs arbitrary: t)
  case Nil
  then show ?case by simp
next
  case (Cons p ps)
  from Cons.prems(1) have "\<exists>r. hook_run p e rq t = Inr r \<and> \<not> truthy r"
    by (auto dest: spec[of _ 0])
  then obtain r where r: "hook_run p e rq t = Inr r" "\<not> truthy r" by blast
  have step: "\<forall>i<length ps. \<exists>r. hook_run (ps ! i) e rq
        ((t @ [Invoke (hook_name p)]) @ invocations (take i ps)) = Inr r \<and> \<not> truthy r"
  proof (intro allI impI)
    fix i assume "i < length ps"
    then have "Suc i < length (p # ps)" by simp
    with Cons.prems(1) have "\<exists>r. hook_run ((p # ps) ! Suc i) e rq
        (t @ invocations (take (Suc i) (p # ps))) = Inr r \<and> \<not> truthy r"
      by blast
    then show "\<exists>r. hook_run (ps ! i) e rq
        ((t @ [Invoke (hook_name p)]) @ invocations (take i ps)) = Inr r \<and> \<not> truthy r"
      by simp
  qed
  from Cons.IH[OF step] r show ?case by simp
qed

lemma runHandlers_result_truthy:
  "runHandlers hs e rq t = (Inr v, t') \<Longrightarrow> \<not> isNil v \<Longrightarrow> truthy v"
proof -
  have loop: "\<And>l t. runHandlersLoop l e rq t = (Inr v, t') \<Longrightarrow> \<not> isNil v \<Longrightarrow> truthy v"
  proof -
    fix l t show "runHandlersLoop l e rq t = (Inr v, t') \<Longrightarrow> \<not> isNil v \<Longrightarrow> truthy v"
      by (induction l arbitrary: t) (auto split: sum.splits if_splits)
  qed
  show "runHandlers hs e rq t = (Inr v, t') \<Longrightarrow> \<not> isNil v \<Longrightarrow> truthy v"
    by (cases hs) (auto simp: runHandlers_def dest: loop)
qed


subsection \<open>What each stage adds to a run\<close>

lemma logEvents_append [simp]: "logEvents (a @ b) = logEvents a @ logEvents b"
  by (induction a) auto

lemma redirects_append [simp]: "redirects (a @ b) = redirects a @ redirects b"
  by (induction a) auto

lemma statuses_append [simp]: "statuses (a @ b) = statuses a @ statuses b"
  by (induction a) auto

lemma headerValues_append [simp]: "headerValues n (a @ b) = headerValues n a @ headerValues n b"
  by (induction a) auto

lemma observe_Invoke [simp]:
  "logEvents (map Invoke ns) = []" "redirects (map Invoke ns) = []"
  "statuses (map Invoke ns) = []" "headerValues n (map Invoke ns) = []"
  by (induction ns) auto

lemma runHandlers_frame:
  assumes "runHandlers hs e rq t = (r, t')"
  shows "logEvents t' = logEvents t" and "redirects t' = redirects t"
    and "statuses t' = statuses t" and "headerValues n t' = headerValues n t"
    and "(FetchWebpackStats \<in> set t') = (FetchWebpackStats \<in> set t)"
    and "(Log l rec \<in> set t') = (Log l rec \<in> set t)"
proof -
  from runHandlers_trace[OF assms] obtain ns where t': "t' = t @ map Invoke ns" by blast
  show "logEvents t' = logEvents t" "redirects t' = redirects t"
    "statuses t' = statuses t" "headerValues n t' = headerValues n t"
    by (simp_all add: t')
  show "(FetchWebpackStats \<in> set t') = (FetchWebpackStats \<in> set t)"
    "(Log l rec \<in> set t') = (Log l rec \<in> set t)"
    by (auto simp: t')
qed

lemma render_success:
  assumes "renderRootErrorBoundary d cmp e ri st t = (Inr body, t')"
  shows "\<exists>stats ex u markup su sm se sty scr.
           fetchWebpackStats d = Inr stats \<and> chunkExtractor d stats = Inr ex
         \<and> parse d (ri_url ri) = Inr u
         \<and> cmp \<lparr>ser_status = st, ser_message = message e, ser_stack = stack e\<rparr> u = Inr markup
         \<and> safeStringify d (OfUrl u) = Inr su
         \<and> safeStringify d (OfString (message e)) = Inr sm
         \<and> safeStringify d (OfError \<lparr>ser_status = st, ser_message = message e, ser_stack = stack e\<rparr>) = Inr se
         \<and> getStyleTags ex = Inr sty \<and> getScriptTags ex = Inr scr
         \<and> body = jsReplace markup ''</head>'' (headReplacement (headScript su sm se) sty scr)"
    and "t' = t @ [FetchWebpackStats, RenderToString, Log Info renderedEvent,
                   ReplyHeader ''Content-Type'' (JStr ''text/html; charset=utf-8''),
                   ReplyHeader ''Content-Length'' (JNum (byteLength body)),
                   ReplyHeader ''Cache-Control'' (JStr ''no-store, no-cache, must-revalidate'')]"
  using assms
  by (auto simp: renderRootErrorBoundary_def attempt_def Let_def split: sum.splits)

lemma render_failure:
  assumes "renderRootErrorBoundary d cmp e ri st t = (Inl x, t')"
  shows "t' = t @ [FetchWebpackStats] \<or> t' = t @ [FetchWebpackStats, RenderToString]"
  using assms
  by (auto simp: renderRootErrorBoundary_def attempt_def Let_def split: sum.splits)

subsection \<open>Claims on the hook chain and the classification\<close>

text \<open>
  C3, as amended. The chain runner invokes the hooks in registration order and stops at
  the first hook whose result is truthy: when every hook before \<open>h\<close> returns a falsy value
  (undefined, null, false, 0, NaN or the empty string) and \<open>h\<close> returns a truthy value,
  that value is returned and exactly the hooks up to \<open>h\<close> have been invoked, in order; no
  hook after \<open>h\<close> is invoked.
\<close>
theorem runHandlers_stops_at_first_truthy:
  assumes "\<forall>i<length pre. \<exists>r. hook_run (pre ! i) e rq (t @ invocations (take i pre)) = Inr r \<and> \<not> truthy r"
    and "hook_run h e rq (t @ invocations pre) = Inr v"
    and "truthy v"
  shows "runHandlers (Some (pre @ h # post)) e rq t = (Inr v, t @ invocations (pre @ [h]))"
  using runHandlersLoop_first_truthy[OF assms] by (simp add: runHandlers_def)

text \<open>Witness: a first hook returning 0, a second returning a string, a third never called.\<close>

theorem runHandlers_stops_at_first_truthy_witness:
  "runHandlers (Some [hookReturning ''a'' (JNum 0), hookReturning ''b'' (JStr ''x''),
                      hookReturning ''c'' (JStr ''y'')])
     (exError NotFoundError None None None) exRequest []
   = (Inr (JStr ''x''), [Invoke ''a'', Invoke ''b''])"
  using runHandlers_stops_at_first_truthy[of "[hookReturning ''a'' (JNum 0)]"
      "exError NotFoundError None None None" exRequest "[]" "hookReturning ''b'' (JStr ''x'')"
      "JStr ''x''" "[hookReturning ''c'' (JStr ''y'')]"]
  by (simp add: hookReturning_def)

text \<open>
  C3 as stated fails: the first hook returns \<^verbatim>\<open>false\<close>, a defined value, and the chain
  goes on to the second hook and returns its result.
\<close>

theorem runHandlers_defined_result_counterexample:
  "hook_run (hookReturning ''a'' (JBool False)) (exError NotFoundError None None None) exRequest []
     = Inr (JBool False)
   \<and> \<not> isNil (JBool False)
   \<and> runHandlers (Some [hookReturning ''a'' (JBool False), hookReturning ''b'' (JStr ''x'')])
       (exError NotFoundError None None None) exRequest []
     = (Inr (JStr ''x''), [Invoke ''a'', Invoke ''b''])"
  by (simp add: runHandlers_def hookReturning_def)

text \<open>
  C6, as amended. A generic (untagged) error whose \<^verbatim>\<open>statusCode\<close> is at least 400 and below
  500 and whose \<^verbatim>\<open>code\<close> is defined is classified at level info with the event
  \<^verbatim>\<open>fastify-error-4xx\<close>.
\<close>

theorem classify_generic_4xx:
  assumes "\<not> isRedirectFoundError e" "\<not> isNotFoundError e" "\<not> isHttpError e"
    and "statusCode e = Some n" "400 \<le> n" "n < 500" "code e = Some c"
  shows "\<exists>cl. classify e = Inr cl \<and> logLevel cl = Info \<and> logEvent cl = ''fastify-error-4xx''"
  using assms by (simp add: classify_def jsGe_def codeMessage_def)

text \<open>Witness: status code 404 with the code of the HTTP layer.\<close>

theorem classify_generic_4xx_witness:
  "\<exists>cl. classify (exError GenericError None (Some 404) (Some ''FST_ERR_NOT_FOUND'')) = Inr cl
     \<and> logLevel cl = Info \<and> logEvent cl = ''fastify-error-4xx''"
  using classify_generic_4xx[of "exError GenericError None (Some 404) (Some ''FST_ERR_NOT_FOUND'')" 404 "''FST_ERR_NOT_FOUND''"]
  by (simp add: exError_def isRedirectFoundError_def isNotFoundError_def isHttpError_def)

text \<open>C6 as stated fails: at status code 404 the event is not \<^verbatim>\<open>generic-error-4xx\<close>.\<close>

theorem classify_generic_404_counterexample:
  "classify (exError GenericError None (Some 404) (Some ''FST_ERR_NOT_FOUND''))
     = Inr \<lparr>c_httpStatus = 404, logLevel = Info, logEvent = ''fastify-error-4xx'',
            logMessage = fastifyMessage ''4xx'' ''FST_ERR_NOT_FOUND''\<rparr>
   \<and> ''fastify-error-4xx'' \<noteq> ''generic-error-4xx''"
  by (simp add: classify_def exError_def isNotFoundError_def isHttpError_def jsGe_def jsOr_def
      codeMessage_def)

text \<open>
  A domain HTTP error that declares a status of 500 or more is classified with that status,
  at level error, with the event \<^verbatim>\<open>send-server-error\<close>.
\<close>

lemma classify_http_declared_5xx:
  assumes "\<not> isNotFoundError e" "isHttpError e" "httpStatus e = Some n" "500 \<le> n"
  shows "classify e
         = Inr \<lparr>c_httpStatus = n, logLevel = Error, logEvent = ''send-server-error'',
                logMessage = httpError5xxMessage\<rparr>"
  using assms by (simp add: classify_def jsGe_def jsOr_def)

text \<open>
  C7 at the input where the code departs from it: a domain HTTP error that declares no
  status is classified with status 500, and yet at level info with the event
  \<^verbatim>\<open>http-error\<close>, since the threshold is tested on the undeclared field.
\<close>

theorem classify_http_no_status:
  "classify (exError HttpError None None None)
   = Inr \<lparr>c_httpStatus = 500, logLevel = Info, logEvent = ''http-error'',
          logMessage = httpErrorMessage\<rparr>"
  by (simp add: classify_def exError_def isNotFoundError_def isHttpError_def jsGe_def jsOr_def)
subsection \<open>The paths through the handler\<close>

lemma respond_cases:
  assumes "respond d e ri st t = (out, tr)"
  shows "(RootErrorBoundary d = None \<and> out = Inl (ErrorObject e) \<and> tr = t @ [ReplyStatus st])
       \<or> (\<exists>cmp body. RootErrorBoundary d = Some cmp
             \<and> renderRootErrorBoundary d cmp e ri st (t @ [ReplyStatus st]) = (Inr body, tr)
             \<and> out = Inr (JStr body))
       \<or> (\<exists>cmp x t'. RootErrorBoundary d = Some cmp
             \<and> renderRootErrorBoundary d cmp e ri st (t @ [ReplyStatus st]) = (Inl x, t')
             \<and> out = Inl (ErrorObject e) \<and> tr = t' @ [Log Warn (failedEvent x)])"
  using assms
  by (auto simp: respond_def Let_def split: option.splits prod.splits sum.splits)

lemma logAndRunAfter_cases:
  assumes "logAndRunAfter d e rq ri c t = (out, tr)"
  shows "(\<exists>x. runHandlers (afterError d) e rq
                 (t @ [Log (logLevel c) (classificationRecord d e ri c)]) = (Inl x, tr)
             \<and> out = Inl x)
       \<or> (\<exists>v. runHandlers (afterError d) e rq
                 (t @ [Log (logLevel c) (classificationRecord d e ri c)]) = (Inr v, tr)
             \<and> \<not> isNil v \<and> out = Inr v)
       \<or> (\<exists>v t'. runHandlers (afterError d) e rq
                 (t @ [Log (logLevel c) (classificationRecord d e ri c)]) = (Inr v, t')
             \<and> isNil v \<and> respond d e ri (c_httpStatus c) t' = (out, tr))"
  using assms
  by (auto simp: logAndRunAfter_def Let_def split: prod.splits sum.splits if_splits)

lemma errorHandler_cases:
  assumes "errorHandler d e rq = (out, tr)"
  shows "(\<exists>x. runHandlers (beforeError d) e rq [] = (Inl x, tr) \<and> out = Inl x)
       \<or> (\<exists>v. runHandlers (beforeError d) e rq [] = (Inr v, tr) \<and> \<not> isNil v \<and> out = Inr v)
       \<or> (\<exists>v t. runHandlers (beforeError d) e rq [] = (Inr v, t) \<and> isNil v
             \<and> isRedirectFoundError e \<and> redirectFound e (mkRequestInfo rq) t = (out, tr))
       \<or> (\<exists>v x. runHandlers (beforeError d) e rq [] = (Inr v, tr) \<and> isNil v
             \<and> \<not> isRedirectFoundError e \<and> classify e = Inl x \<and> out = Inl x)
       \<or> (\<exists>v t c. runHandlers (beforeError d) e rq [] = (Inr v, t) \<and> isNil v
             \<and> \<not> isRedirectFoundError e \<and> classify e = Inr c
             \<and> logAndRunAfter d e rq (mkRequestInfo rq) c t = (out, tr))"
  using assms
  by (auto simp: errorHandler_def defaultHandler_def Let_def split: prod.splits sum.splits if_splits)

lemma respond_outcome:
  assumes "respond d e ri st t = (out, tr)"
  shows "redirects tr = redirects t" and "\<forall>v. out = Inr v \<longrightarrow> \<not> isNil v"
  using respond_cases[OF assms]
  by (auto dest: render_success(2) render_failure)

lemma logAndRunAfter_outcome:
  assumes "logAndRunAfter d e rq ri c t = (out, tr)"
  shows "redirects tr = redirects t" and "\<forall>v. out = Inr v \<longrightarrow> \<not> isNil v"
proof -
  let ?t1 = "t @ [Log (logLevel c) (classificationRecord d e ri c)]"
  have r1: "redirects ?t1 = redirects t" by simp
  from logAndRunAfter_cases[OF assms]
  consider (thrown) x where "runHandlers (afterError d) e rq ?t1 = (Inl x, tr)" "out = Inl x"
    | (result) v where "runHandlers (afterError d) e rq ?t1 = (Inr v, tr)" "\<not> isNil v" "out = Inr v"
    | (respond) v t' where "runHandlers (afterError d) e rq ?t1 = (Inr v, t')"
        "respond d e ri (c_httpStatus c) t' = (out, tr)"
    by blast
  then have "redirects tr = redirects t \<and> (\<forall>v. out = Inr v \<longrightarrow> \<not> isNil v)"
  proof cases
    case thrown
    from runHandlers_frame(2)[OF thrown(1)] r1 thrown(2) show ?thesis by simp
  next
    case result
    from runHandlers_frame(2)[OF result(1)] r1 result(2,3) show ?thesis by simp
  next
    case respond
    from runHandlers_frame(2)[OF respond(1)] r1 respond_outcome[OF respond(2)]
    show ?thesis by simp
  qed
  then show "redirects tr = redirects t" and "\<forall>v. out = Inr v \<longrightarrow> \<not> isNil v" by blast+
qed

text \<open>
  C1. Every invocation ends in exactly one of two ways: it returns a response (a value
  that is not nil, or a redirect issued on the reply) or an exception leaves it. It never
  returns nil without having redirected, and a redirect is never followed by a returned
  body or by an exception.
\<close>

theorem errorHandler_one_outcome:
  "returnsResponse (errorHandler d e rq) \<noteq> throwsException (errorHandler d e rq)
   \<and> (redirects (snd (errorHandler d e rq)) \<noteq> [] \<longrightarrow> fst (errorHandler d e rq) = Inr Undefined)"
proof -
  obtain out tr where run: "errorHandler d e rq = (out, tr)" by (cases "errorHandler d e rq")
  from errorHandler_cases[OF run]
  consider (before_thrown) x where "runHandlers (beforeError d) e rq [] = (Inl x, tr)" "out = Inl x"
    | (before_result) v where "runHandlers (beforeError d) e rq [] = (Inr v, tr)" "\<not> isNil v" "out = Inr v"
    | (redirect) v t where "runHandlers (beforeError d) e rq [] = (Inr v, t)"
        "redirectFound e (mkRequestInfo rq) t = (out, tr)"
    | (classify_thrown) v x where "runHandlers (beforeError d) e rq [] = (Inr v, tr)" "out = Inl x"
    | (classified) v t c where "runHandlers (beforeError d) e rq [] = (Inr v, t)"
        "logAndRunAfter d e rq (mkRequestInfo rq) c t = (out, tr)"
    by blast
  then have "returnsResponse (out, tr) \<noteq> throwsException (out, tr)
      \<and> (redirects tr \<noteq> [] \<longrightarrow> out = Inr Undefined)"
  proof cases
    case before_thrown
    from runHandlers_frame(2)[OF before_thrown(1)] before_thrown(2) show ?thesis
      by (simp add: returnsResponse_def throwsException_def)
  next
    case before_result
    from runHandlers_frame(2)[OF before_result(1)] before_result(2,3) show ?thesis
      by (simp add: returnsResponse_def throwsException_def)
  next
    case redirect
    from redirect(2) show ?thesis
      by (auto simp: redirectFound_def returnsResponse_def throwsException_def)
  next
    case classify_thrown
    from runHandlers_frame(2)[OF classify_thrown(1)] classify_thrown(2) show ?thesis
      by (simp add: returnsResponse_def throwsException_def)
  next
    case classified
    from runHandlers_frame(2)[OF classified(1)] logAndRunAfter_outcome[OF classified(2)]
    show ?thesis
      by (cases out) (simp_all add: returnsResponse_def throwsException_def)
  qed
  with run show ?thesis by simp
qed

text \<open>Witness: a not-found error with no hooks and no boundary is rethrown, nothing is redirected.\<close>

theorem errorHandler_one_outcome_witness:
  "returnsResponse (errorHandler exDeps (exError NotFoundError None None None) exRequest)
     \<noteq> throwsException (errorHandler exDeps (exError NotFoundError None None None) exRequest)
   \<and> redirects (snd (errorHandler exDeps (exError RedirectFoundError None None None) exRequest))
       \<noteq> []
   \<and> fst (errorHandler exDeps (exError RedirectFoundError None None None) exRequest)
       = Inr Undefined"
proof -
  have r: "redirects (snd (errorHandler exDeps (exError RedirectFoundError None None None) exRequest))
       \<noteq> []"
    by (simp add: errorHandler_def defaultHandler_def exDeps_def runHandlers_def exError_def
        isRedirectFoundError_def redirectFound_def)
  from errorHandler_one_outcome[of exDeps "exError NotFoundError None None None" exRequest]
    errorHandler_one_outcome[of exDeps "exError RedirectFoundError None None None" exRequest] r
  show ?thesis by blast
qed
lemma classify_vocabulary:
  "classify e = Inr c \<Longrightarrow> logEvent c \<in> set handlerVocabulary"
  by (auto simp: classify_def handlerVocabulary_def split: if_splits sum.splits)

lemma respond_logEvents:
  assumes "respond d e ri st t = (out, tr)"
  shows "set (logEvents tr) \<subseteq> set (logEvents t) \<union> set handlerVocabulary"
  using respond_cases[OF assms]
  by (auto dest!: render_success(2) render_failure
      simp: renderedEvent_def failedEvent_def handlerVocabulary_def)

lemma logAndRunAfter_logEvents:
  assumes "logAndRunAfter d e rq ri c t = (out, tr)" and "logEvent c \<in> set handlerVocabulary"
  shows "set (logEvents tr) \<subseteq> set (logEvents t) \<union> set handlerVocabulary"
proof -
  let ?t1 = "t @ [Log (logLevel c) (classificationRecord d e ri c)]"
  have l1: "set (logEvents ?t1) \<subseteq> set (logEvents t) \<union> set handlerVocabulary"
    using assms(2) by (simp add: classificationRecord_def)
  from logAndRunAfter_cases[OF assms(1)]
  consider (ended) r where "runHandlers (afterError d) e rq ?t1 = (r, tr)"
    | (respond) v t' where "runHandlers (afterError d) e rq ?t1 = (Inr v, t')"
        "respond d e ri (c_httpStatus c) t' = (out, tr)"
    by blast
  then show ?thesis
  proof cases
    case ended
    from runHandlers_frame(1)[OF ended] l1 show ?thesis by simp
  next
    case respond
    from runHandlers_frame(1)[OF respond(1)] l1 respond_logEvents[OF respond(2)]
    show ?thesis by auto
  qed
qed

text \<open>
  C2, as amended. Every event name the handler logs is one of
  \<^verbatim>\<open>redirect-found-error\<close>, \<^verbatim>\<open>not-found-error\<close>, \<^verbatim>\<open>http-error\<close>, \<^verbatim>\<open>send-server-error\<close>,
  \<^verbatim>\<open>fastify-error-4xx\<close>, \<^verbatim>\<open>render-root-error-boundary\<close>, \<^verbatim>\<open>failed-root-error-boundary\<close>.
\<close>

theorem errorHandler_log_vocabulary:
  "\<forall>name \<in> set (logEvents (snd (errorHandler d e rq))). name \<in> set handlerVocabulary"
proof -
  obtain out tr where run: "errorHandler d e rq = (out, tr)" by (cases "errorHandler d e rq")
  from errorHandler_cases[OF run]
  consider (before) r where "runHandlers (beforeError d) e rq [] = (r, tr)"
    | (redirect) v t where "runHandlers (beforeError d) e rq [] = (Inr v, t)"
        "redirectFound e (mkRequestInfo rq) t = (out, tr)"
    | (classified) v t c where "runHandlers (beforeError d) e rq [] = (Inr v, t)"
        "classify e = Inr c" "logAndRunAfter d e rq (mkRequestInfo rq) c t = (out, tr)"
    by blast
  then have "set (logEvents tr) \<subseteq> set handlerVocabulary"
  proof cases
    case before
    from runHandlers_frame(1)[OF before] show ?thesis by simp
  next
    case redirect
    from runHandlers_frame(1)[OF redirect(1)] redirect(2) show ?thesis
      by (auto simp: redirectFound_def redirectRecord_def handlerVocabulary_def)
  next
    case classified
    from runHandlers_frame(1)[OF classified(1)]
      logAndRunAfter_logEvents[OF classified(3) classify_vocabulary[OF classified(2)]]
    show ?thesis by simp
  qed
  with run show ?thesis by auto
qed

text \<open>Witness: a generic 404 error logs one event, from the list.\<close>

theorem errorHandler_log_vocabulary_witness:
  "logEvents (snd (errorHandler exDeps
      (exError GenericError None (Some 404) (Some ''FST_ERR_NOT_FOUND'')) exRequest))
     = [''fastify-error-4xx'']
   \<and> ''fastify-error-4xx'' \<in> set handlerVocabulary"
proof -
  have l: "logEvents (snd (errorHandler exDeps
      (exError GenericError None (Some 404) (Some ''FST_ERR_NOT_FOUND'')) exRequest))
     = [''fastify-error-4xx'']"
    by (simp add: errorHandler_def defaultHandler_def exDeps_def runHandlers_def exError_def
        isRedirectFoundError_def isNotFoundError_def isHttpError_def classify_def jsGe_def
        jsOr_def codeMessage_def logAndRunAfter_def classificationRecord_def respond_def Let_def)
  from errorHandler_log_vocabulary[of exDeps
      "exError GenericError None (Some 404) (Some ''FST_ERR_NOT_FOUND'')" exRequest] l
  show ?thesis by simp
qed

text \<open>
  C2 as stated fails: the event logged for a generic 404 error is not in the list of the
  specification.
\<close>

theorem errorHandler_spec_vocabulary_counterexample:
  "logEvents (snd (errorHandler exDeps
      (exError GenericError None (Some 404) (Some ''FST_ERR_NOT_FOUND'')) exRequest))
     = [''fastify-error-4xx'']
   \<and> ''fastify-error-4xx'' \<notin> set specVocabulary"
  by (simp add: errorHandler_def defaultHandler_def exDeps_def runHandlers_def exError_def
      isRedirectFoundError_def isNotFoundError_def isHttpError_def classify_def jsGe_def
      jsOr_def codeMessage_def logAndRunAfter_def classificationRecord_def respond_def Let_def
      specVocabulary_def)

subsection \<open>Claims on single paths\<close>

text \<open>
  C4, as amended. Take the caught error as it stands when the log message is built, that
  is once the before-hook chain is over without a result. If it is not a redirect,
  not-found or domain HTTP error, its \<^verbatim>\<open>statusCode\<close> is at least 400 and its \<^verbatim>\<open>code\<close> is
  undefined, then building the message throws a \<^verbatim>\<open>TypeError\<close> and the handler throws it
  from there: the calls made so far are all there is, no log record is added, and what
  propagates is not the caught error. With no before-hook registered this is the whole
  invocation, and its run is empty.
\<close>

theorem generic_error_without_code_throws:
  assumes "\<not> isRedirectFoundError e" "\<not> isNotFoundError e" "\<not> isHttpError e"
    and "statusCode e = Some n" "400 \<le> n" "code e = None"
  shows "\<exists>m. classify e = Inl (TypeError m)
           \<and> defaultHandler d e rq t = (Inl (TypeError m), t)
           \<and> TypeError m \<noteq> ErrorObject e
           \<and> (beforeError d = None \<or> beforeError d = Some []
                \<longrightarrow> errorHandler d e rq = (Inl (TypeError m), []))"
proof -
  from assms(2-6) obtain m where c: "classify e = Inl (TypeError m)"
    by (auto simp: classify_def jsGe_def codeMessage_def)
  from assms(1) c have dh: "\<And>t. defaultHandler d e rq t = (Inl (TypeError m), t)"
    by (simp add: defaultHandler_def)
  have "beforeError d = None \<or> beforeError d = Some []
        \<longrightarrow> errorHandler d e rq = (Inl (TypeError m), [])"
    using dh[of "[]"] by (auto simp: errorHandler_def runHandlers_def)
  with c dh show ?thesis by simp
qed

text \<open>Witness: status code 400 without a code, no hooks.\<close>

theorem generic_error_without_code_throws_witness:
  "\<exists>m. classify (exError GenericError None (Some 400) None) = Inl (TypeError m)
       \<and> defaultHandler exDeps (exError GenericError None (Some 400) None) exRequest
            [Invoke ''earlier'']
          = (Inl (TypeError m), [Invoke ''earlier''])
       \<and> errorHandler exDeps (exError GenericError None (Some 400) None) exRequest
          = (Inl (TypeError m), [])"
proof -
  have h: "\<not> isRedirectFoundError (exError GenericError None (Some 400) None)"
    "\<not> isNotFoundError (exError GenericError None (Some 400) None)"
    "\<not> isHttpError (exError GenericError None (Some 400) None)"
    "statusCode (exError GenericError None (Some 400) None) = Some 400"
    "(400::int) \<le> 400"
    "code (exError GenericError None (Some 400) None) = None"
    by (simp_all add: exError_def isRedirectFoundError_def isNotFoundError_def isHttpError_def)
  have b: "beforeError exDeps = None" by (simp add: exDeps_def)
  from generic_error_without_code_throws[OF h, of exDeps exRequest "[Invoke ''earlier'']"] b
  show ?thesis by auto
qed

text \<open>
  C4 as stated fails: for such an error a before-hook that answers ends the invocation,
  and the handler returns the hook's value instead of throwing.
\<close>

theorem generic_error_without_code_counterexample:
  "statusCode (exError GenericError None (Some 400) None) = Some 400
   \<and> code (exError GenericError None (Some 400) None) = None
   \<and> errorHandler (exDeps\<lparr>beforeError := Some [hookReturning ''custom'' (JStr ''handled'')]\<rparr>)
        (exError GenericError None (Some 400) None) exRequest
      = (Inr (JStr ''handled''), [Invoke ''custom''])"
  by (simp add: errorHandler_def defaultHandler_def runHandlers_def hookReturning_def exError_def)

text \<open>
  C8. For an error tagged as a redirect, when no before-hook ends the invocation, the
  handler logs once at info with the event \<^verbatim>\<open>redirect-found-error\<close>, sets the no-cache
  header, redirects to the error's target URL and returns. The status of the redirect is
  the status the error declares, and 307 when it declares none (as \<^verbatim>\<open>||\<close> has it, a
  declared 0 counts as none). After the invocations of the before-hooks the run holds
  these three calls and nothing else: no classification record, no after-hook, no status,
  no rendering.
\<close>

theorem redirect_short_circuit:
  assumes "isRedirectFoundError e"
    and "runHandlers (beforeError d) e rq [] = (Inr b, t)" "isNil b"
  shows "errorHandler d e rq
         = (Inr Undefined,
            t @ [Log Info \<lparr>log_event = ''redirect-found-error'',
                           log_message = redirectMessage e,
                           log_error = Some (ErrorObject e),
                           log_requestInfo = Some (mkRequestInfo rq)\<rparr>,
                 ReplyHeader ''cache-control'' (JStr ''no-store, no-cache, must-revalidate''),
                 ReplyRedirect
                   (case httpStatus e of None \<Rightarrow> 307 | Some n \<Rightarrow> if n = 0 then 307 else n)
                   (nextUrl e)])
       \<and> (\<exists>names. t = map Invoke names)"
proof -
  from assms have "errorHandler d e rq = redirectFound e (mkRequestInfo rq) t"
    by (simp add: errorHandler_def defaultHandler_def)
  moreover from runHandlers_trace[OF assms(2)] have "\<exists>names. t = map Invoke names" by simp
  ultimately show ?thesis by (simp add: redirectFound_def redirectRecord_def jsOr_def)
qed

text \<open>
  Witness: behind a before-hook that returns undefined, a redirect that declares 301 is
  sent with 301, and one that declares no status with 307.
\<close>

theorem redirect_short_circuit_witness:
  "errorHandler (exDeps\<lparr>beforeError := Some [hookReturning ''pass'' Undefined]\<rparr>)
     (exError RedirectFoundError (Some 301) None None) exRequest
   = (Inr Undefined,
      [Invoke ''pass'',
       Log Info \<lparr>log_event = ''redirect-found-error'',
                 log_message = redirectMessage (exError RedirectFoundError (Some 301) None None),
                 log_error = Some (ErrorObject (exError RedirectFoundError (Some 301) None None)),
                 log_requestInfo = Some (mkRequestInfo exRequest)\<rparr>,
       ReplyHeader ''cache-control'' (JStr ''no-store, no-cache, must-revalidate''),
       ReplyRedirect 301 (Some ''/login'')])
   \<and> errorHandler (exDeps\<lparr>beforeError := Some [hookReturning ''pass'' Undefined]\<rparr>)
     (exError RedirectFoundError None None None) exRequest
   = (Inr Undefined,
      [Invoke ''pass'',
       Log Info \<lparr>log_event = ''redirect-found-error'',
                 log_message = redirectMessage (exError RedirectFoundError None None None),
                 log_error = Some (ErrorObject (exError RedirectFoundError None None None)),
                 log_requestInfo = Some (mkRequestInfo exRequest)\<rparr>,
       ReplyHeader ''cache-control'' (JStr ''no-store, no-cache, must-revalidate''),
       ReplyRedirect 307 (Some ''/login'')])"
proof -
  let ?d = "exDeps\<lparr>beforeError := Some [hookReturning ''pass'' Undefined]\<rparr>"
  have b: "\<And>e. runHandlers (beforeError ?d) e exRequest [] = (Inr Undefined, [Invoke ''pass''])"
    by (simp add: runHandlers_def hookReturning_def)
  have r: "\<And>hs. isRedirectFoundError (exError RedirectFoundError hs None None)"
    by (simp add: isRedirectFoundError_def exError_def)
  have s: "\<And>hs. httpStatus (exError RedirectFoundError hs None None) = hs"
    "\<And>hs. nextUrl (exError RedirectFoundError hs None None) = Some ''/login''"
    by (simp_all add: exError_def)
  from redirect_short_circuit[OF r b, of "Some 301"] redirect_short_circuit[OF r b, of None] s
  show ?thesis by simp
qed

text \<open>
  C9, as amended. When a before-hook returns a truthy value, every hook before it having
  returned a falsy one, the handler returns that value unchanged, and the run holds the
  invocations of the before-hooks up to that hook and nothing else: no classification, no
  log record, no after-hook, no rendering.
\<close>

theorem before_hook_short_circuit:
  assumes "beforeError d = Some (pre @ h # post)"
    and "\<forall>i<length pre. \<exists>r. hook_run (pre ! i) e rq (invocations (take i pre)) = Inr r \<and> \<not> truthy r"
    and "hook_run h e rq (invocations pre) = Inr v"
    and "truthy v"
  shows "errorHandler d e rq = (Inr v, invocations (pre @ [h]))"
proof -
  from assms(2,3) have
    "\<forall>i<length pre. \<exists>r. hook_run (pre ! i) e rq ([] @ invocations (take i pre)) = Inr r \<and> \<not> truthy r"
    "hook_run h e rq ([] @ invocations pre) = Inr v"
    by simp_all
  from runHandlersLoop_first_truthy[OF this assms(4), of post] assms(1)
  have "runHandlers (beforeError d) e rq [] = (Inr v, invocations (pre @ [h]))"
    by (simp add: runHandlers_def)
  moreover from assms(4) have "\<not> isNil v" by (cases v) simp_all
  ultimately show ?thesis by (simp add: errorHandler_def defaultHandler_def)
qed

text \<open>Witness: the second before-hook answers, the after-hook is never invoked.\<close>

theorem before_hook_short_circuit_witness:
  "errorHandler (exDeps\<lparr>beforeError := Some [hookReturning ''first'' Null,
                                               hookReturning ''second'' (JStr ''custom page'')],
                        afterError := Some [hookReturning ''after'' (JStr ''late'')]\<rparr>)
     (exError NotFoundError None None None) exRequest
   = (Inr (JStr ''custom page''), [Invoke ''first'', Invoke ''second''])"
  using before_hook_short_circuit[of
      "exDeps\<lparr>beforeError := Some [hookReturning ''first'' Null,
                                    hookReturning ''second'' (JStr ''custom page'')],
              afterError := Some [hookReturning ''after'' (JStr ''late'')]\<rparr>"
      "[hookReturning ''first'' Null]" "hookReturning ''second'' (JStr ''custom page'')" "[]"
      "exError NotFoundError None None None" exRequest "JStr ''custom page''"]
  by (simp add: hookReturning_def)

text \<open>
  C9 as stated fails: the before-hook returns \<^verbatim>\<open>false\<close>, a defined value, and the handler
  goes on to classify, log and rethrow the error.
\<close>

theorem before_hook_defined_result_counterexample:
  "hook_run (hookReturning ''guard'' (JBool False)) (exError NotFoundError None None None)
      exRequest [] = Inr (JBool False)
   \<and> \<not> isNil (JBool False)
   \<and> fst (errorHandler (exDeps\<lparr>beforeError := Some [hookReturning ''guard'' (JBool False)]\<rparr>)
            (exError NotFoundError None None None) exRequest)
      = Inl (ErrorObject (exError NotFoundError None None None))
   \<and> logEvents (snd (errorHandler (exDeps\<lparr>beforeError := Some [hookReturning ''guard'' (JBool False)]\<rparr>)
            (exError NotFoundError None None None) exRequest))
      = [''not-found-error'']"
  by (simp add: errorHandler_def defaultHandler_def exDeps_def runHandlers_def hookReturning_def exError_def
      isRedirectFoundError_def isNotFoundError_def classify_def
      jsOr_def logAndRunAfter_def classificationRecord_def respond_def Let_def)

subsection \<open>The strings of the rendering\<close>

lemma splitAtFirst_Some:
  "splitAtFirst pat s = Some (a, b) \<Longrightarrow> s = a @ pat @ b"
proof (induction s arbitrary: a)
  case Nil
  then show ?case by (simp split: if_splits)
next
  case (Cons c cs)
  show ?case
  proof (cases "take (length pat) (c # cs) = pat")
    case True
    with Cons.prems have "a = []" "b = drop (length pat) (c # cs)" by simp_all
    with True show ?thesis by (metis append_Nil append_take_drop_id)
  next
    case False
    with Cons.prems obtain a' where "splitAtFirst pat cs = Some (a', b)" "a = c # a'"
      by (auto split: option.splits)
    with Cons.IH show ?thesis by simp
  qed
qed

lemma includesStrI: "s = a @ pat @ b \<Longrightarrow> includesStr s pat"
proof (induction a arbitrary: s)
  case Nil
  then have t: "take (length pat) s = pat" by simp
  show ?case
  proof (cases s)
    case Nil
    with t show ?thesis by (simp add: includesStr_def)
  next
    case (Cons c cs)
    with t have "splitAtFirst pat s = Some ([], drop (length pat) s)" by simp
    then show ?thesis by (simp add: includesStr_def)
  qed
next
  case (Cons x a)
  then have "includesStr (a @ pat @ b) pat" by simp
  with Cons.prems show ?case by (auto simp: includesStr_def split: option.splits)
qed

lemma getSubstitution_step:
  "c \<noteq> CHR ''$'' \<Longrightarrow> getSubstitution m a b (c # xs) = c # getSubstitution m a b xs"
  by (cases xs) auto

lemma getSubstitution_plain_prefix:
  "CHR ''$'' \<notin> set xs \<Longrightarrow> getSubstitution m a b (xs @ ys) = xs @ getSubstitution m a b ys"
  by (induction xs) (auto simp: getSubstitution_step)

lemma getSubstitution_append:
  assumes "y \<noteq> CHR ''$''" "y \<noteq> CHR ''&''" "y \<noteq> CHR 0x60" "y \<noteq> CHR 0x27"
  shows "getSubstitution m a b (xs @ y # ys)
         = getSubstitution m a b xs @ getSubstitution m a b (y # ys)"
  using assms by (induction m a b xs rule: getSubstitution.induct) auto

lemma getSubstitution_verbatim:
  "\<not> hasDollarPattern r \<Longrightarrow> getSubstitution m a b r = r"
  by (induction m a b r rule: getSubstitution.induct) auto

text \<open>
  A text without a substitution pattern, put between a text without dollar sign and a
  character that is no pattern character, is inserted as it is.
\<close>

lemma piece_verbatim:
  assumes "CHR ''$'' \<notin> set lit" and "\<not> hasDollarPattern piece"
    and "y \<noteq> CHR ''$''" "y \<noteq> CHR ''&''" "y \<noteq> CHR 0x60" "y \<noteq> CHR 0x27"
  shows "getSubstitution m a b (lit @ piece @ y # rest)
         = lit @ piece @ getSubstitution m a b (y # rest)"
proof -
  have "getSubstitution m a b (lit @ piece @ y # rest)
        = lit @ getSubstitution m a b (piece @ y # rest)"
    using assms(1) by (rule getSubstitution_plain_prefix)
  also have "getSubstitution m a b (piece @ y # rest)
        = getSubstitution m a b piece @ getSubstitution m a b (y # rest)"
    using assms(3-6) by (rule getSubstitution_append)
  also have "getSubstitution m a b piece = piece"
    using assms(2) by (rule getSubstitution_verbatim)
  finally show ?thesis .
qed

lemma headReplacement_starts:
  "\<exists>rest. headReplacement (headScript su sm se) sty scr = headScript su sm se @ rest"
proof -
  have ne: "headScript su sm se \<noteq> []" by (simp add: headScript_def)
  have "\<And>xs. \<exists>rest. join nl (headScript su sm se # xs) = headScript su sm se @ rest"
  proof -
    fix xs show "\<exists>rest. join nl (headScript su sm se # xs) = headScript su sm se @ rest"
      by (cases xs) auto
  qed
  with ne show ?thesis by (simp add: headReplacement_def)
qed

text \<open>
  Each of the three serialised texts reaches the body as it is when the markup has a
  \<^verbatim>\<open></head>\<close> and the text itself holds no substitution pattern, whatever the other
  texts hold.
\<close>

lemma body_includes:
  fixes su sm se sty scr :: string
  assumes "includesStr markup ''</head>''"
  defines "body \<equiv> jsReplace markup ''</head>'' (headReplacement (headScript su sm se) sty scr)"
  shows "\<not> hasDollarPattern su \<Longrightarrow> includesStr body su"
    and "\<not> hasDollarPattern sm \<Longrightarrow> includesStr body sm"
    and "\<not> hasDollarPattern se \<Longrightarrow> includesStr body se"
proof -
  from assms(1) obtain a b where ab: "splitAtFirst ''</head>'' markup = Some (a, b)"
    by (auto simp: includesStr_def)
  from headReplacement_starts obtain rest
    where hr: "headReplacement (headScript su sm se) sty scr = headScript su sm se @ rest" by blast
  let ?gs = "getSubstitution ''</head>'' a b"
  let ?L1 = "''<script>window.serverUrl = ''"
  let ?L2 = "''window.serverError = new Error(''"
  let ?L3 = "'';Object.assign(window.serverError, ''"
  let ?Z = "'';</script>'' @ rest"
  let ?Y = "?L3 @ se @ CHR '')'' # ?Z"
  let ?X = "?L2 @ sm @ CHR '')'' # ?Y"
  have shape: "headScript su sm se @ rest = ?L1 @ su @ CHR '';'' # ?X"
    by (simp add: headScript_def)
  with ab hr have body: "body = a @ ?gs (?L1 @ su @ CHR '';'' # ?X) @ b"
    by (simp add: body_def jsReplace_def)
  have cut1: "?gs (?L1 @ su @ CHR '';'' # ?X) = ?gs (?L1 @ su) @ ?gs (CHR '';'' # ?X)"
    using getSubstitution_append[of "CHR '';''" "''</head>''" a b "?L1 @ su" ?X] by simp
  have cut2: "?gs (CHR '';'' # ?X) = ?gs ((CHR '';'' # ?L2) @ sm) @ ?gs (CHR '')'' # ?Y)"
    using getSubstitution_append[of "CHR '')''" "''</head>''" a b "(CHR '';'' # ?L2) @ sm" ?Y]
    by simp
  show "includesStr body su" if "\<not> hasDollarPattern su"
  proof -
    have "?gs (?L1 @ su @ CHR '';'' # ?X) = ?L1 @ su @ ?gs (CHR '';'' # ?X)"
      by (rule piece_verbatim) (use that in simp_all)
    with body have "body = (a @ ?L1) @ su @ (?gs (CHR '';'' # ?X) @ b)" by simp
    then show ?thesis by (rule includesStrI)
  qed
  show "includesStr body sm" if "\<not> hasDollarPattern sm"
  proof -
    have "?gs ((CHR '';'' # ?L2) @ sm @ CHR '')'' # ?Y)
          = (CHR '';'' # ?L2) @ sm @ ?gs (CHR '')'' # ?Y)"
      by (rule piece_verbatim) (use that in simp_all)
    then have "?gs (CHR '';'' # ?X) = (CHR '';'' # ?L2) @ sm @ ?gs (CHR '')'' # ?Y)" by simp
    with body cut1
    have "body = (a @ ?gs (?L1 @ su) @ CHR '';'' # ?L2) @ sm @ (?gs (CHR '')'' # ?Y) @ b)"
      by simp
    then show ?thesis by (rule includesStrI)
  qed
  show "includesStr body se" if "\<not> hasDollarPattern se"
  proof -
    have "?gs ((CHR '')'' # ?L3) @ se @ CHR '')'' # ?Z)
          = (CHR '')'' # ?L3) @ se @ ?gs (CHR '')'' # ?Z)"
      by (rule piece_verbatim) (use that in simp_all)
    then have "?gs (CHR '')'' # ?Y) = (CHR '')'' # ?L3) @ se @ ?gs (CHR '')'' # ?Z)" by simp
    with body cut1 cut2
    have "body = (a @ ?gs (?L1 @ su) @ ?gs ((CHR '';'' # ?L2) @ sm) @ CHR '')'' # ?L3)
                 @ se @ (?gs (CHR '')'' # ?Z) @ b)"
      by simp
    then show ?thesis by (rule includesStrI)
  qed
qed

subsection \<open>Claims on the rendering of the error boundary\<close>

lemma respond_failed:
  assumes "respond d e ri st t = (out, tr)"
    and "FetchWebpackStats \<notin> set t" "FetchWebpackStats \<in> set tr"
    and "Log Info renderedEvent \<notin> set tr"
  shows "\<exists>cmp x t'. RootErrorBoundary d = Some cmp
           \<and> renderRootErrorBoundary d cmp e ri st (t @ [ReplyStatus st]) = (Inl x, t')
           \<and> out = Inl (ErrorObject e) \<and> tr = t' @ [Log Warn (failedEvent x)]"
  using respond_cases[OF assms(1)] assms(2-4)
  by (auto dest: render_success(2))

lemma respond_rendered:
  assumes "respond d e ri st t = (out, tr)"
    and "Log Info renderedEvent \<notin> set t" "Log Info renderedEvent \<in> set tr"
  shows "\<exists>cmp body. RootErrorBoundary d = Some cmp
           \<and> renderRootErrorBoundary d cmp e ri st (t @ [ReplyStatus st]) = (Inr body, tr)
           \<and> out = Inr (JStr body)"
  using respond_cases[OF assms(1)] assms(2,3)
  by (auto dest: render_failure)

text \<open>Up to the call of \<open>respond\<close> a run holds no rendering and no status.\<close>

lemma errorHandler_reaches_respond:
  assumes "errorHandler d e rq = (out, tr)"
    and "FetchWebpackStats \<in> set tr \<or> Log Info renderedEvent \<in> set tr"
  shows "\<exists>c t. classify e = Inr c \<and> respond d e (mkRequestInfo rq) (c_httpStatus c) t = (out, tr)
           \<and> FetchWebpackStats \<notin> set t \<and> Log Info renderedEvent \<notin> set t
           \<and> statuses t = [] \<and> headerValues ''Content-Length'' t = []"
proof -
  have fresh: "FetchWebpackStats \<notin> set ([] :: effect list)"
    "Log Info renderedEvent \<notin> set ([] :: effect list)" by simp_all
  from errorHandler_cases[OF assms(1)]
  consider (before) r where "runHandlers (beforeError d) e rq [] = (r, tr)"
    | (redirect) v t where "runHandlers (beforeError d) e rq [] = (Inr v, t)"
        "redirectFound e (mkRequestInfo rq) t = (out, tr)"
    | (classified) v t c where "runHandlers (beforeError d) e rq [] = (Inr v, t)"
        "classify e = Inr c" "logAndRunAfter d e rq (mkRequestInfo rq) c t = (out, tr)"
    by blast
  then show ?thesis
  proof cases
    case before
    from runHandlers_frame(5,6)[OF before] assms(2) show ?thesis by simp
  next
    case redirect
    from runHandlers_frame(5,6)[OF redirect(1)] redirect(2) assms(2) show ?thesis
      by (auto simp: redirectFound_def redirectRecord_def renderedEvent_def)
  next
    case classified
    let ?t1 = "t @ [Log (logLevel c) (classificationRecord d e (mkRequestInfo rq) c)]"
    from runHandlers_frame[OF classified(1)]
    have t1: "FetchWebpackStats \<notin> set ?t1" "Log Info renderedEvent \<notin> set ?t1"
      "statuses ?t1 = []" "headerValues ''Content-Length'' ?t1 = []"
      by (auto simp: classificationRecord_def renderedEvent_def)
    from logAndRunAfter_cases[OF classified(3)]
    consider (ended) r where "runHandlers (afterError d) e rq ?t1 = (r, tr)"
      | (respond) v' t' where "runHandlers (afterError d) e rq ?t1 = (Inr v', t')"
          "respond d e (mkRequestInfo rq) (c_httpStatus c) t' = (out, tr)"
      by blast
    then show ?thesis
    proof cases
      case ended
      from runHandlers_frame(5,6)[OF ended] t1 assms(2) show ?thesis by simp
    next
      case respond
      from runHandlers_frame[OF respond(1)] t1
      have "FetchWebpackStats \<notin> set t'" "Log Info renderedEvent \<notin> set t'"
        "statuses t' = []" "headerValues ''Content-Length'' t' = []"
        by simp_all
      with classified(2) respond(2) show ?thesis by blast
    qed
  qed
qed

text \<open>
  C5, as amended. Whenever the rendering of the error boundary is attempted and a step of
  it throws, the failure is caught, a warning with the event
  \<^verbatim>\<open>failed-root-error-boundary\<close> that carries the failure is the last call of the run, and
  the original caught error is what leaves the handler.
\<close>

theorem fallback_failure_rethrows_original:
  assumes "errorHandler d e rq = (out, tr)"
    and "FetchWebpackStats \<in> set tr"
    and "Log Info renderedEvent \<notin> set tr"
  shows "\<exists>x t. out = Inl (ErrorObject e)
           \<and> tr = t @ [Log Warn (failedEvent x)]
           \<and> log_event (failedEvent x) = ''failed-root-error-boundary''
           \<and> log_error (failedEvent x) = Some x
           \<and> (\<exists>cmp c t0. RootErrorBoundary d = Some cmp \<and> classify e = Inr c
                \<and> renderRootErrorBoundary d cmp e (mkRequestInfo rq) (c_httpStatus c) t0 = (Inl x, t))"
proof -
  from errorHandler_reaches_respond[OF assms(1)] assms(2)
  obtain c t0 where c: "classify e = Inr c"
    and r: "respond d e (mkRequestInfo rq) (c_httpStatus c) t0 = (out, tr)"
    and f: "FetchWebpackStats \<notin> set t0"
    by blast
  from respond_failed[OF r f assms(2,3)] c show ?thesis
    by (auto simp: failedEvent_def)
qed

text \<open>Witness: the asset manifest cannot be fetched.\<close>

theorem fallback_failure_rethrows_original_witness:
  "errorHandler (exDeps\<lparr>RootErrorBoundary := Some exPage,
                        fetchWebpackStats := Inl (Exception ''no stats'')\<rparr>)
     (exError HttpError (Some 503) None None) exRequest
   = (Inl (ErrorObject (exError HttpError (Some 503) None None)),
      [Log Error (classificationRecord (exDeps\<lparr>RootErrorBoundary := Some exPage,
                        fetchWebpackStats := Inl (Exception ''no stats'')\<rparr>)
                   (exError HttpError (Some 503) None None) (mkRequestInfo exRequest)
                   \<lparr>c_httpStatus = 503, logLevel = Error, logEvent = ''send-server-error'',
                    logMessage = httpError5xxMessage\<rparr>),
       ReplyStatus 503, FetchWebpackStats,
       Log Warn (failedEvent (Exception ''no stats''))])"
proof -
  let ?d = "exDeps\<lparr>RootErrorBoundary := Some exPage,
                   fetchWebpackStats := Inl (Exception ''no stats'')\<rparr>"
  let ?e = "exError HttpError (Some 503) None None"
  let ?tr = "[Log Error (classificationRecord ?d ?e (mkRequestInfo exRequest)
                   \<lparr>c_httpStatus = 503, logLevel = Error, logEvent = ''send-server-error'',
                    logMessage = httpError5xxMessage\<rparr>),
       ReplyStatus 503, FetchWebpackStats,
       Log Warn (failedEvent (Exception ''no stats''))]"
  have run: "errorHandler ?d ?e exRequest = (Inl (ErrorObject ?e), ?tr)"
    by (simp add: errorHandler_def defaultHandler_def exDeps_def runHandlers_def exError_def
        isRedirectFoundError_def isNotFoundError_def isHttpError_def classify_def jsGe_def
        jsOr_def logAndRunAfter_def respond_def Let_def renderRootErrorBoundary_def attempt_def)
  have a: "FetchWebpackStats \<in> set ?tr" by simp
  have n: "Log Info renderedEvent \<notin> set ?tr"
    by (simp add: renderedEvent_def failedEvent_def classificationRecord_def)
  from fallback_failure_rethrows_original[OF run a n] show ?thesis by (simp add: run)
qed

text \<open>
  C5 as stated fails: the rendering is attempted and fails, the original error is
  rethrown, and no event named \<^verbatim>\<open>failed-fallback-render\<close> is logged.
\<close>

theorem fallback_failure_event_counterexample:
  "FetchWebpackStats \<in> set (snd (errorHandler (exDeps\<lparr>RootErrorBoundary := Some exPage,
                        fetchWebpackStats := Inl (Exception ''no stats'')\<rparr>)
     (exError HttpError (Some 503) None None) exRequest))
   \<and> logEvents (snd (errorHandler (exDeps\<lparr>RootErrorBoundary := Some exPage,
                        fetchWebpackStats := Inl (Exception ''no stats'')\<rparr>)
     (exError HttpError (Some 503) None None) exRequest))
     = [''send-server-error'', ''failed-root-error-boundary'']
   \<and> ''failed-fallback-render'' \<notin> set [''send-server-error'', ''failed-root-error-boundary'']"
  by (simp add: errorHandler_def defaultHandler_def exDeps_def runHandlers_def exError_def
      isRedirectFoundError_def isNotFoundError_def isHttpError_def classify_def jsGe_def
      jsOr_def logAndRunAfter_def respond_def Let_def renderRootErrorBoundary_def attempt_def
      classificationRecord_def failedEvent_def)

text \<open>
  C10, as amended. Whenever the error boundary is rendered successfully, the handler
  returns the body string, the only status set in the run is the classified status, and
  the \<^verbatim>\<open>Content-Length\<close> header is the number of bytes of the UTF-8 encoding of that body.
  The body is the rendered markup with the script block put in place of its first
  \<^verbatim>\<open></head>\<close>. It contains the serialised error message when the markup contains
  \<^verbatim>\<open></head>\<close> and that text holds none of the substitution patterns \<^verbatim>\<open>$$\<close>, \<^verbatim>\<open>$&\<close>,
  \<^verbatim>\<open>$`\<close>, \<^verbatim>\<open>$'\<close>; and likewise the request URL, in the form the handler inserts it
  (\<^verbatim>\<open>safeStringify(parse(request.url))\<close>), and the serialised error.
\<close>

theorem fallback_success_response:
  assumes "errorHandler d e rq = (out, tr)"
    and "Log Info renderedEvent \<in> set tr"
  shows "\<exists>c cmp stats ex u markup su sm se sty scr body.
           classify e = Inr c \<and> RootErrorBoundary d = Some cmp
         \<and> fetchWebpackStats d = Inr stats \<and> chunkExtractor d stats = Inr ex
         \<and> parse d (url rq) = Inr u
         \<and> cmp \<lparr>ser_status = c_httpStatus c, ser_message = message e, ser_stack = stack e\<rparr> u
             = Inr markup
         \<and> safeStringify d (OfUrl u) = Inr su
         \<and> safeStringify d (OfString (message e)) = Inr sm
         \<and> safeStringify d (OfError \<lparr>ser_status = c_httpStatus c, ser_message = message e,
                                      ser_stack = stack e\<rparr>) = Inr se
         \<and> getStyleTags ex = Inr sty \<and> getScriptTags ex = Inr scr
         \<and> body = jsReplace markup ''</head>'' (headReplacement (headScript su sm se) sty scr)
         \<and> out = Inr (JStr body)
         \<and> statuses tr = [c_httpStatus c]
         \<and> headerValues ''Content-Length'' tr = [JNum (int (length body))]
         \<and> (includesStr markup ''</head>'' \<and> \<not> hasDollarPattern sm \<longrightarrow> includesStr body sm)
         \<and> (includesStr markup ''</head>'' \<and> \<not> hasDollarPattern su \<longrightarrow> includesStr body su)
         \<and> (includesStr markup ''</head>'' \<and> \<not> hasDollarPattern se \<longrightarrow> includesStr body se)"
proof -
  let ?ri = "mkRequestInfo rq"
  from errorHandler_reaches_respond[OF assms(1)] assms(2)
  obtain c t0 where c: "classify e = Inr c"
    and r: "respond d e ?ri (c_httpStatus c) t0 = (out, tr)"
    and fresh: "Log Info renderedEvent \<notin> set t0"
    and t0: "statuses t0 = []" "headerValues ''Content-Length'' t0 = []"
    by blast
  let ?se = "\<lparr>ser_status = c_httpStatus c, ser_message = message e, ser_stack = stack e\<rparr>"
  from respond_rendered[OF r fresh assms(2)]
  obtain cmp body where cmp: "RootErrorBoundary d = Some cmp"
    and rr: "renderRootErrorBoundary d cmp e ?ri (c_httpStatus c) (t0 @ [ReplyStatus (c_httpStatus c)])
             = (Inr body, tr)"
    and out: "out = Inr (JStr body)"
    by blast
  from render_success(1)[OF rr]
  obtain stats ex u markup su sm se sty scr where parts:
    "fetchWebpackStats d = Inr stats" "chunkExtractor d stats = Inr ex"
    "parse d (ri_url ?ri) = Inr u" "cmp ?se u = Inr markup"
    "safeStringify d (OfUrl u) = Inr su" "safeStringify d (OfString (message e)) = Inr sm"
    "safeStringify d (OfError ?se) = Inr se"
    "getStyleTags ex = Inr sty" "getScriptTags ex = Inr scr"
    and body: "body = jsReplace markup ''</head>'' (headReplacement (headScript su sm se) sty scr)"
    by (elim exE conjE)
  from parts(3) have u: "parse d (url rq) = Inr u" by (simp add: mkRequestInfo_def)
  from render_success(2)[OF rr] t0
  have obs: "statuses tr = [c_httpStatus c]"
    "headerValues ''Content-Length'' tr = [JNum (int (length body))]"
    by (simp_all add: byteLength_def)
  have inc: "includesStr markup ''</head>'' \<and> \<not> hasDollarPattern sm \<longrightarrow> includesStr body sm"
    "includesStr markup ''</head>'' \<and> \<not> hasDollarPattern su \<longrightarrow> includesStr body su"
    "includesStr markup ''</head>'' \<and> \<not> hasDollarPattern se \<longrightarrow> includesStr body se"
    using body_includes[where markup=markup and su=su and sm=sm and se=se and sty=sty and scr=scr]
      body by simp_all
  from c cmp parts(1,2) u parts(4-9) body out obs inc show ?thesis by blast
qed

text \<open>
  Witness: a domain error with status 503 whose message holds a dollar sign that starts no
  pattern, and a page that has a head.
\<close>

theorem fallback_success_response_witness:
  "\<exists>body. fst (errorHandler (exDeps\<lparr>RootErrorBoundary := Some exPage\<rparr>)
                 ((exError HttpError (Some 503) None None)\<lparr>message := ''cost $5''\<rparr>) exRequest)
             = Inr (JStr body)
     \<and> statuses (snd (errorHandler (exDeps\<lparr>RootErrorBoundary := Some exPage\<rparr>)
                 ((exError HttpError (Some 503) None None)\<lparr>message := ''cost $5''\<rparr>) exRequest))
         = [503]
     \<and> headerValues ''Content-Length'' (snd (errorHandler (exDeps\<lparr>RootErrorBoundary := Some exPage\<rparr>)
                 ((exError HttpError (Some 503) None None)\<lparr>message := ''cost $5''\<rparr>) exRequest))
         = [JNum (int (length body))]
     \<and> includesStr body (dq @ ''cost $5'' @ dq) \<and> includesStr body (dq @ ''/page'' @ dq)"
proof -
  let ?d = "exDeps\<lparr>RootErrorBoundary := Some exPage\<rparr>"
  let ?e = "(exError HttpError (Some 503) None None)\<lparr>message := ''cost $5''\<rparr>"
  obtain out tr where run: "errorHandler ?d ?e exRequest = (out, tr)"
    by (cases "errorHandler ?d ?e exRequest")
  have "Log Info renderedEvent \<in> set (snd (errorHandler ?d ?e exRequest))"
    by (simp add: errorHandler_def defaultHandler_def exDeps_def runHandlers_def exError_def
        isRedirectFoundError_def isNotFoundError_def isHttpError_def classify_def jsGe_def
        jsOr_def logAndRunAfter_def respond_def Let_def renderRootErrorBoundary_def attempt_def
        exPage_def exStringify_def)
  with run have rendered: "Log Info renderedEvent \<in> set tr" by simp
  from fallback_success_response[OF run rendered]
  obtain c stats ex u markup su sm se sty scr body where f:
    "classify ?e = Inr c" "chunkExtractor ?d stats = Inr ex" "parse ?d (url exRequest) = Inr u"
    "exPage \<lparr>ser_status = c_httpStatus c, ser_message = message ?e, ser_stack = stack ?e\<rparr> u
       = Inr markup"
    "safeStringify ?d (OfUrl u) = Inr su" "safeStringify ?d (OfString (message ?e)) = Inr sm"
    "out = Inr (JStr body)" "statuses tr = [c_httpStatus c]"
    "headerValues ''Content-Length'' tr = [JNum (int (length body))]"
    and inc: "includesStr markup ''</head>'' \<and> \<not> hasDollarPattern sm \<longrightarrow> includesStr body sm"
      "includesStr markup ''</head>'' \<and> \<not> hasDollarPattern su \<longrightarrow> includesStr body su"
    by (elim exE conjE) simp
  from f(1) have c: "c_httpStatus c = 503"
    by (auto simp: classify_def exError_def isNotFoundError_def isHttpError_def jsGe_def jsOr_def)
  from f(3) have u: "u = ''/page''" by (simp add: exDeps_def exRequest_def)
  from f(4) have markup: "markup = ''<html><head></head><body>Error</body></html>''"
    by (simp add: exPage_def)
  from f(5) u have su: "su = dq @ ''/page'' @ dq" by (auto simp: exDeps_def exStringify_def)
  from f(6) have sm: "sm = dq @ ''cost $5'' @ dq"
    by (auto simp: exDeps_def exStringify_def exError_def)
  have "includesStr markup ''</head>''" by (simp add: markup includesStr_def)
  moreover have "\<not> hasDollarPattern su" "\<not> hasDollarPattern sm"
    by (simp_all add: su sm dq_def)
  ultimately have "includesStr body su" "includesStr body sm" using inc by simp_all
  with f(7-9) run c su sm show ?thesis by simp
qed

text \<open>
  C10 as stated fails, in two ways. A page without \<^verbatim>\<open></head>\<close> is rendered successfully
  and returned as rendered, with neither the serialised message nor the URL. And for a
  page with a head and the message \<^verbatim>\<open>a$&b\<close>, the pattern is replaced by the matched
  \<^verbatim>\<open></head>\<close>, so the body returned does not contain the serialised message.
\<close>

theorem fallback_body_counterexample:
  "errorHandler (exDeps\<lparr>RootErrorBoundary := Some exBarePage\<rparr>)
       (exError HttpError (Some 503) None None) exRequest
     = (Inr (JStr ''<body>Error</body>''),
        [Log Error (classificationRecord (exDeps\<lparr>RootErrorBoundary := Some exBarePage\<rparr>)
                   (exError HttpError (Some 503) None None) (mkRequestInfo exRequest)
                   \<lparr>c_httpStatus = 503, logLevel = Error, logEvent = ''send-server-error'',
                    logMessage = httpError5xxMessage\<rparr>),
         ReplyStatus 503, FetchWebpackStats, RenderToString, Log Info renderedEvent,
         ReplyHeader ''Content-Type'' (JStr ''text/html; charset=utf-8''),
         ReplyHeader ''Content-Length'' (JNum 18),
         ReplyHeader ''Cache-Control'' (JStr ''no-store, no-cache, must-revalidate'')])
   \<and> exStringify (OfString (message (exError HttpError (Some 503) None None)))
       = Inr (dq @ ''boom'' @ dq)
   \<and> exStringify (OfUrl (url exRequest)) = Inr (dq @ ''/page'' @ dq)
   \<and> \<not> includesStr ''<body>Error</body>'' (dq @ ''boom'' @ dq)
   \<and> \<not> includesStr ''<body>Error</body>'' (dq @ ''/page'' @ dq)
   \<and> fst (errorHandler (exDeps\<lparr>RootErrorBoundary := Some exPage\<rparr>)
            ((exError HttpError (Some 503) None None)\<lparr>message := ''a$&b''\<rparr>) exRequest)
       = Inr (JStr (''<html><head><script>window.serverUrl = '' @ dq @ ''/page'' @ dq
                    @ '';window.serverError = new Error('' @ dq @ ''a</head>b'' @ dq
                    @ '');Object.assign(window.serverError, {'' @ dq @ ''message'' @ dq @ '':''
                    @ dq @ ''a</head>b'' @ dq @ ''});</script>'' @ nl @ ''<link>'' @ nl
                    @ ''</head><body>Error</body></html>''))
   \<and> exStringify (OfString ''a$&b'') = Inr (dq @ ''a$&b'' @ dq)
   \<and> \<not> includesStr (''<html><head><script>window.serverUrl = '' @ dq @ ''/page'' @ dq
                    @ '';window.serverError = new Error('' @ dq @ ''a</head>b'' @ dq
                    @ '');Object.assign(window.serverError, {'' @ dq @ ''message'' @ dq @ '':''
                    @ dq @ ''a</head>b'' @ dq @ ''});</script>'' @ nl @ ''<link>'' @ nl
                    @ ''</head><body>Error</body></html>'')
          (dq @ ''a$&b'' @ dq)"
  by (simp add: errorHandler_def defaultHandler_def exDeps_def runHandlers_def exError_def
      exRequest_def
      isRedirectFoundError_def isNotFoundError_def isHttpError_def classify_def jsGe_def
      jsOr_def logAndRunAfter_def respond_def Let_def renderRootErrorBoundary_def attempt_def
      exBarePage_def exPage_def exStringify_def jsReplace_def includesStr_def byteLength_def
      dq_def nl_def headReplacement_def headScript_def
      classificationRecord_def mkRequestInfo_def)

end
